theory Spec2Isabelle
  imports Main
begin

section \<open>Values of the host language\<close>

text \<open>
  The module \<^verbatim>\<open>packages/database/src/Database.ts\<close> sits between a PostgreSQL driver
  (\<^verbatim>\<open>pg\<close>, \<^verbatim>\<open>drizzle-orm\<close>) and the \<^verbatim>\<open>effect\<close> runtime. Values that are thrown,
  rejected or carried in an error channel have the static type \<^verbatim>\<open>unknown\<close>; the model
  gives them one type \<open>jsval\<close>.

  \<^item> \<open>pg_DatabaseError\<close>: an instance of the driver's class \<^verbatim>\<open>pg.DatabaseError\<close>, with the
    two properties the module reads: \<^verbatim>\<open>code\<close> (a string or undefined) and \<^verbatim>\<open>message\<close>.
  \<^item> \<open>js_error\<close>: an instance of \<^verbatim>\<open>Error\<close>: the driver's class or any other.
  \<^item> \<open>DatabaseError\<close> and \<open>DatabaseConnectionLostError\<close>: the two tagged error classes the
    module declares, with their fields.
  \<^item> \<open>UnknownException\<close>: what \<^verbatim>\<open>Effect.tryPromise\<close> fails with when it is given no
    \<^verbatim>\<open>catch\<close>; it carries the rejected value.
  \<^item> \<open>CauseObject\<close>: a \<^verbatim>\<open>Cause\<close> of the effect runtime, taken as a value (the module passes
    one to \<^verbatim>\<open>Effect.fail\<close> and \<^verbatim>\<open>Effect.die\<close>).
  \<^item> \<open>JsValue\<close>: any other value, by a rendering of it.
\<close>

datatype pg_DatabaseError = PgDatabaseError (pg_code: "string option") (pg_message: string)

datatype js_error = DriverError pg_DatabaseError | OtherError string

fun error_message :: "js_error \<Rightarrow> string" where
  "error_message (DriverError d) = pg_message d"
| "error_message (OtherError m) = m"

datatype db_error_type = unique_violation | foreign_key_violation | connection_error

datatype jsval =
    JsError js_error
  | JsValue string
  | DatabaseError db_error_type pg_DatabaseError
  | DatabaseConnectionLostError jsval string
  | UnknownException jsval
  | CauseObject cause
and cause =
    Empty
  | Fail jsval
  | Die jsval
  | Interrupt
  | Sequential cause cause
  | Parallel cause cause

text \<open>\<^verbatim>\<open>error instanceof pg.DatabaseError\<close>.\<close>

fun instanceof_pg_DatabaseError :: "jsval \<Rightarrow> bool" where
  "instanceof_pg_DatabaseError (JsError (DriverError d)) = True"
| "instanceof_pg_DatabaseError v = False"

text \<open>
  The getter \<^verbatim>\<open>message\<close> and \<^verbatim>\<open>toString\<close> of \<^verbatim>\<open>DatabaseError\<close>: both read the message
  of the driver error it carries.
\<close>

definition DatabaseError_message :: "db_error_type \<Rightarrow> pg_DatabaseError \<Rightarrow> string" where
  "DatabaseError_message type cause = pg_message cause"

definition DatabaseError_toString :: "db_error_type \<Rightarrow> pg_DatabaseError \<Rightarrow> string" where
  "DatabaseError_toString type cause = ''DatabaseError: '' @ pg_message cause"

section \<open>The error classifier\<close>

text \<open>
  \<^verbatim>\<open>matchPgError\<close>: the \<^verbatim>\<open>instanceof\<close> test is the first pattern, the \<^verbatim>\<open>switch\<close> on
  \<^verbatim>\<open>error.code\<close> compares with \<^verbatim>\<open>===\<close> against three string literals in the source's order,
  and \<^verbatim>\<open>null\<close> is \<open>None\<close>.
\<close>

fun matchPgError :: "jsval \<Rightarrow> jsval option" where
  "matchPgError (JsError (DriverError error)) =
     (if pg_code error = Some ''23505'' then Some (DatabaseError unique_violation error)
      else if pg_code error = Some ''23503'' then Some (DatabaseError foreign_key_violation error)
      else if pg_code error = Some ''08000'' then Some (DatabaseError connection_error error)
      else None)"
| "matchPgError error = None"

section \<open>Promises, exits and the effect constructors\<close>

text \<open>
  A promise is taken at its settlement. A call of a caller-supplied function that should
  return a promise either returns one or throws before it does.
\<close>

datatype 'a promise = Resolves 'a | Rejects jsval

datatype 'a call = Returns "'a promise" | Throws jsval

text \<open>
  \<^verbatim>\<open>Exit\<close>: the outcome of an effect that completes. The error channel is dynamically typed
  (the source casts with \<^verbatim>\<open>as E\<close>), so a failure holds a \<open>jsval\<close>.
\<close>

datatype 'a exit = Success 'a | Failure cause

definition Effect_succeed :: "'a \<Rightarrow> 'a exit" where
  "Effect_succeed a = Success a"

definition Effect_fail :: "jsval \<Rightarrow> 'a exit" where
  "Effect_fail error = Failure (Fail error)"

definition Effect_die :: "jsval \<Rightarrow> 'a exit" where
  "Effect_die defect = Failure (Die defect)"

text \<open>
  \<^verbatim>\<open>Cause.isFailure\<close>: whether the cause holds a \<^verbatim>\<open>Fail\<close> anywhere (the library searches
  the tree with \<^verbatim>\<open>failureOption\<close>).
\<close>

fun Cause_isFailure :: "cause \<Rightarrow> bool" where
  "Cause_isFailure Empty = False"
| "Cause_isFailure (Fail e) = True"
| "Cause_isFailure (Die d) = False"
| "Cause_isFailure Interrupt = False"
| "Cause_isFailure (Sequential l r) = (Cause_isFailure l \<or> Cause_isFailure r)"
| "Cause_isFailure (Parallel l r) = (Cause_isFailure l \<or> Cause_isFailure r)"

text \<open>
  \<^verbatim>\<open>Cause.originalError\<close> has the type \<^verbatim>\<open><E>(obj: E) => E\<close>: it returns
  \<^verbatim>\<open>obj[originalSymbol]\<close> when \<^verbatim>\<open>obj\<close> has that property and \<^verbatim>\<open>obj\<close> itself otherwise.
  Only the proxy that \<^verbatim>\<open>Effect.fail\<close> and \<^verbatim>\<open>Effect.die\<close> put around an error object
  under a tracing span has the property, and the proxy forwards every other property to the
  object, so the model does not tell the two apart. A \<^verbatim>\<open>Cause\<close> never has the property. On
  every value of the model the function therefore returns its argument. It does not look
  inside a cause for the error it holds.
\<close>

definition Cause_originalError :: "jsval \<Rightarrow> jsval" where
  "Cause_originalError obj = obj"

text \<open>
  \<^verbatim>\<open>Effect.tryPromise({ try, catch })\<close>: a resolved promise is a success. A rejection, or
  a throw of \<^verbatim>\<open>try\<close> itself, goes to \<^verbatim>\<open>catch\<close>; what \<^verbatim>\<open>catch\<close> returns is a typed failure,
  and what it throws is a defect (the library evaluates \<^verbatim>\<open>catch\<close> under \<^verbatim>\<open>failSync\<close>).
\<close>

datatype 'e handled = Returned 'e | Rethrown jsval

definition Effect_tryPromise :: "'a call \<Rightarrow> (jsval \<Rightarrow> jsval handled) \<Rightarrow> 'a exit" where
  "Effect_tryPromise try catch =
     (case try of
        Returns (Resolves a) \<Rightarrow> Success a
      | Returns (Rejects cause) \<Rightarrow>
          (case catch cause of Returned error \<Rightarrow> Effect_fail error | Rethrown d \<Rightarrow> Effect_die d)
      | Throws cause \<Rightarrow>
          (case catch cause of Returned error \<Rightarrow> Effect_fail error | Rethrown d \<Rightarrow> Effect_die d))"

text \<open>\<^verbatim>\<open>Effect.tryPromise(try)\<close> with no \<^verbatim>\<open>catch\<close> fails with an \<^verbatim>\<open>UnknownException\<close>.\<close>

definition Effect_tryPromise_unknown :: "'a call \<Rightarrow> 'a exit" where
  "Effect_tryPromise_unknown try = Effect_tryPromise try (\<lambda>e. Returned (UnknownException e))"

text \<open>
  \<^verbatim>\<open>Cause.failureOption\<close>: the first typed failure of a cause, searching the tree from the
  left, or none.
\<close>

fun Cause_failureOption :: "cause \<Rightarrow> jsval option" where
  "Cause_failureOption Empty = None"
| "Cause_failureOption (Fail e) = Some e"
| "Cause_failureOption (Die d) = None"
| "Cause_failureOption Interrupt = None"
| "Cause_failureOption (Sequential l r) =
     (case Cause_failureOption l of Some e \<Rightarrow> Some e | None \<Rightarrow> Cause_failureOption r)"
| "Cause_failureOption (Parallel l r) =
     (case Cause_failureOption l of Some e \<Rightarrow> Some e | None \<Rightarrow> Cause_failureOption r)"

text \<open>
  \<^verbatim>\<open>Effect.orDie\<close>: an effect that fails with a cause that holds a typed failure dies with
  the first such failure; a cause without one passes as it is.
\<close>

definition Effect_orDie :: "'a exit \<Rightarrow> 'a exit" where
  "Effect_orDie exit =
     (case exit of
        Success a \<Rightarrow> Success a
      | Failure c \<Rightarrow>
          (case Cause_failureOption c of Some e \<Rightarrow> Effect_die e | None \<Rightarrow> Failure c))"

text \<open>
  The callback of \<^verbatim>\<open>Effect.async\<close> receives \<^verbatim>\<open>resume\<close>. The effect completes with the
  effect given to the first call of \<^verbatim>\<open>resume\<close>; later calls are ignored. The cell is
  \<open>None\<close> while \<^verbatim>\<open>resume\<close> has not been called: the effect is still suspended.
\<close>

definition resume :: "'a exit option \<Rightarrow> 'a exit \<Rightarrow> 'a exit option" where
  "resume cell effect = (case cell of None \<Rightarrow> Some effect | Some first \<Rightarrow> Some first)"

section \<open>The query executor\<close>

datatype client = NodePgDatabase | PgTransaction

text \<open>
  The \<^verbatim>\<open>catch\<close> function that \<^verbatim>\<open>execute\<close> and \<^verbatim>\<open>txWrapper\<close> both pass to
  \<^verbatim>\<open>Effect.tryPromise\<close> (the source writes it out twice, identically): return the classified
  error, or throw the cause again.
\<close>

definition catch_cause :: "jsval \<Rightarrow> jsval handled" where
  "catch_cause cause =
     (case matchPgError cause of Some error \<Rightarrow> Returned error | None \<Rightarrow> Rethrown cause)"

definition execute :: "client \<Rightarrow> (client \<Rightarrow> 'a call) \<Rightarrow> 'a exit" where
  "execute db fn = Effect_tryPromise (fn db) catch_cause"

section \<open>The transaction bridge\<close>

text \<open>
  The driver's transaction primitive (\<^verbatim>\<open>db.transaction\<close> of drizzle's node-postgres
  session) issues \<^verbatim>\<open>begin\<close>, awaits the callback, issues \<^verbatim>\<open>commit\<close> when the callback's
  promise resolves, and in every other case issues \<^verbatim>\<open>rollback\<close> and rejects with the error
  (with the error of \<^verbatim>\<open>rollback\<close> when that statement fails too). A \<open>driver\<close> says which
  of the three statements fails, and with what; the list of \<open>driver_action\<close> holds the
  statements that succeeded.
\<close>

datatype driver_action = Begin | Commit | Rollback

datatype driver =
  Driver (begin_error: "jsval option") (commit_error: "jsval option") (rollback_error: "jsval option")

definition rollback_and_rethrow :: "driver \<Rightarrow> jsval \<Rightarrow> driver_action list \<times> unit promise" where
  "rollback_and_rethrow drv error =
     (case rollback_error drv of
        None \<Rightarrow> ([Begin, Rollback], Rejects error)
      | Some r \<Rightarrow> ([Begin], Rejects r))"

definition db_transaction ::
  "driver \<Rightarrow> (client \<Rightarrow> 's \<Rightarrow> unit promise \<times> 's) \<Rightarrow> 's \<Rightarrow> (driver_action list \<times> unit promise) \<times> 's" where
  "db_transaction drv callback s =
     (case begin_error drv of
        Some e \<Rightarrow> (([], Rejects e), s)
      | None \<Rightarrow>
          (case callback PgTransaction s of
             (Resolves r, s') \<Rightarrow>
               (case commit_error drv of
                  None \<Rightarrow> (([Begin, Commit], Resolves r), s')
                | Some e \<Rightarrow> (rollback_and_rethrow drv e, s'))
           | (Rejects e, s') \<Rightarrow> (rollback_and_rethrow drv e, s')))"

text \<open>
  The body given to \<^verbatim>\<open>transaction\<close> is a function from the transaction's capability to an
  effect. Calling it may throw before any effect exists; otherwise
  \<^verbatim>\<open>runPromiseExit\<close> runs the effect and resolves with its \<^verbatim>\<open>Exit\<close> (that promise
  never rejects).
\<close>

datatype 'a body_run = Body_throws jsval | Body_exit "'a exit"

text \<open>
  The \<^verbatim>\<open>async\<close> callback handed to \<^verbatim>\<open>db.transaction\<close>. Its state is the cell of the
  enclosing \<^verbatim>\<open>Effect.async\<close>. A throw inside an \<^verbatim>\<open>async\<close> function rejects its promise;
  when the body has run, the function reaches its end and its promise resolves.
\<close>

definition transaction_callback ::
  "(((client \<Rightarrow> 'u call) \<Rightarrow> 'u exit) \<Rightarrow> 'a body_run) \<Rightarrow> client \<Rightarrow> 'a exit option
     \<Rightarrow> unit promise \<times> 'a exit option" where
  "transaction_callback execute_body tx cell =
     (let txWrapper = (\<lambda>fn. Effect_tryPromise (fn tx) catch_cause) in
      case execute_body txWrapper of
        Body_throws thrown \<Rightarrow> (Rejects thrown, cell)
      | Body_exit result \<Rightarrow>
          (Resolves (),
           (case result of
              Success a \<Rightarrow> resume cell (Effect_succeed a)
            | Failure cause \<Rightarrow>
                if Cause_isFailure cause
                then resume cell (Effect_fail (Cause_originalError (CauseObject cause)))
                else resume cell (Effect_die (CauseObject cause)))))"

text \<open>
  \<^verbatim>\<open>transaction\<close>: the statements the driver ran, and what the outer effect completes with
  (\<open>None\<close>: it never does).
\<close>

definition transaction ::
  "driver \<Rightarrow> (((client \<Rightarrow> 'u call) \<Rightarrow> 'u exit) \<Rightarrow> 'a body_run) \<Rightarrow> driver_action list \<times> 'a exit option" where
  "transaction drv execute_body =
     (case db_transaction drv (transaction_callback execute_body) None of
        ((stmts, Resolves r), cell) \<Rightarrow> (stmts, cell)
      | ((stmts, Rejects cause), cell) \<Rightarrow>
          (stmts,
           resume cell
             (case matchPgError cause of
                Some error \<Rightarrow> Effect_fail error
              | None \<Rightarrow> Effect_die cause)))"

section \<open>The query factory\<close>

text \<open>\<^verbatim>\<open>tx ?? execute\<close>: an absent \<^verbatim>\<open>tx\<close> is \<open>None\<close>.\<close>

definition makeQuery ::
  "client \<Rightarrow> (((client \<Rightarrow> 'u call) \<Rightarrow> 'u exit) \<Rightarrow> 'i \<Rightarrow> 'r) \<Rightarrow> 'i
     \<Rightarrow> ((client \<Rightarrow> 'u call) \<Rightarrow> 'u exit) option \<Rightarrow> 'r" where
  "makeQuery db queryFn input tx =
     queryFn (case tx of Some capability \<Rightarrow> capability | None \<Rightarrow> execute db) input"

section \<open>Service start-up\<close>

text \<open>
  \<^verbatim>\<open>Config\<close> holds the connection string as a \<^verbatim>\<open>Redacted\<close> value; \<^verbatim>\<open>Redacted.value\<close>
  unwraps it. \<^verbatim>\<open>makeService\<close> unwraps it once, in the options of \<^verbatim>\<open>new pg.Pool\<close>.
\<close>

datatype redacted = Redacted string

fun Redacted_value :: "redacted \<Rightarrow> string" where
  "Redacted_value (Redacted s) = s"

datatype config = Config (url: redacted) (ssl: bool)

datatype pool_config =
  PoolConfig (connectionString: string) (pool_ssl: bool)
    (idleTimeoutMillis: nat) (connectionTimeoutMillis: nat)

text \<open>
  The pool is an event emitter: it holds its listeners, each under the name of its event,
  in the order of registration. \<open>ConnectionLostListener\<close> is the listener that
  \<^verbatim>\<open>setupConnectionListeners\<close> registers; \<open>OtherListener\<close> is a listener of other code.
\<close>

datatype listener = ConnectionLostListener | OtherListener nat

datatype pool = Pool (pool_options: pool_config) (listeners: "(string \<times> listener) list")

definition new_Pool :: "pool_config \<Rightarrow> pool" where
  "new_Pool options = Pool options []"

definition pool_on :: "string \<Rightarrow> listener \<Rightarrow> pool \<Rightarrow> pool" where
  "pool_on eventName l p = Pool (pool_options p) (listeners p @ [(eventName, l)])"

definition pool_removeAllListeners :: "string \<Rightarrow> pool \<Rightarrow> pool" where
  "pool_removeAllListeners eventName p =
     Pool (pool_options p) (filter (\<lambda>(ev, l). ev \<noteq> eventName) (listeners p))"

datatype log_entry = LogInfo string | LogWarning string

text \<open>The decimal rendering of a number in a template literal.\<close>

fun string_of_nat :: "nat \<Rightarrow> string" where
  "string_of_nat n =
     (if n < 10 then [''0123456789'' ! n]
      else string_of_nat (n div 10) @ [''0123456789'' ! (n mod 10)])"

declare string_of_nat.simps [simp del]

definition retry_message :: "nat \<Rightarrow> string" where
  "retry_message output =
     ''[Database client]: Connection to the database failed. Retrying (attempt ''
       @ string_of_nat output @ '').''"

definition established_message :: string where
  "established_message = ''[Database client]: Connection to the database established.''"

text \<open>
  \<^verbatim>\<open>Schedule.spaced\<close> is \<^verbatim>\<open>Schedule.forever\<close> with a delay: its state counts the
  recurrences from 0, each step outputs the state and moves to its successor, and it always
  decides to continue. \<^verbatim>\<open>Schedule.jitteredWith\<close> changes the delay only; the delay itself is
  time and is not part of the model.
\<close>

definition Schedule_spaced :: "nat \<Rightarrow> nat \<times> nat" where
  "Schedule_spaced state = (state, Suc state)"

text \<open>
  \<^verbatim>\<open>Effect.retry\<close> under that schedule, with the \<^verbatim>\<open>tapOutput\<close> that logs a warning at each
  step of the schedule. \<open>attempt n\<close> is the outcome of the effect when it runs for the
  \<open>n\<close>-th time, counting from 0. Only a typed failure is retried: a cause that holds none
  ends the retry as it is. The result holds the exit, the number of runs and the log;
  \<open>None\<close> is a retry that never ends.
\<close>

partial_function (option) retry_spaced ::
  "(nat \<Rightarrow> 'a exit) \<Rightarrow> nat \<Rightarrow> nat \<Rightarrow> log_entry list \<Rightarrow> ('a exit \<times> nat \<times> log_entry list) option" where
  "retry_spaced attempt n state logged =
     (case attempt n of
        Success a \<Rightarrow> Some (Success a, Suc n, logged)
      | Failure c \<Rightarrow>
          (case Cause_failureOption c of
             None \<Rightarrow> Some (Failure c, Suc n, logged)
           | Some e \<Rightarrow>
               (case Schedule_spaced state of
                  (output, state') \<Rightarrow>
                    retry_spaced attempt (Suc n) state' (logged @ [LogWarning (retry_message output)]))))"

text \<open>A call ends well when it returns a promise that resolves; otherwise it fails.\<close>

fun call_fails :: "'a call \<Rightarrow> bool" where
  "call_fails (Returns (Resolves a)) = False"
| "call_fails c = True"

text \<open>
  The part of \<^verbatim>\<open>makeService\<close> up to the probe: the pool is built, then
  \<^verbatim>\<open>pool.query("SELECT 1")\<close> is tried under the retry; \<^verbatim>\<open>Effect.tap\<close> logs once on
  success, and \<^verbatim>\<open>Effect.orDie\<close> closes the pipeline. \<open>query k\<close> is how the \<open>k\<close>-th call of
  \<^verbatim>\<open>pool.query\<close> ends. The service exists when \<open>ready\<close> is a success.
\<close>

datatype service =
  Service (service_pool: pool) (ready: "unit exit") (attempts: nat) (logs: "log_entry list")

definition makeService :: "config \<Rightarrow> (nat \<Rightarrow> unit call) \<Rightarrow> service option" where
  "makeService config query =
     (let pool = new_Pool (PoolConfig (Redacted_value (url config)) (ssl config) 0 0) in
      case retry_spaced (\<lambda>k. Effect_tryPromise_unknown (query k)) 0 0 [] of
        None \<Rightarrow> None
      | Some (exit, n, logged) \<Rightarrow>
          Some (Service pool (Effect_orDie exit) n
                  (case exit of
                     Success a \<Rightarrow> logged @ [LogInfo established_message]
                   | Failure c \<Rightarrow> logged)))"

section \<open>The connection-loss watcher\<close>

text \<open>
  The task is \<^verbatim>\<open>Effect.zipRight(Effect.async(...), Effect.logInfo(...), { concurrent: true })\<close>.
  The right side logs and completes at once, so the task completes when the left side
  does: with the effect given to \<^verbatim>\<open>resume\<close>, or interrupted. A \<open>task\<close> holds the pool, the
  cell of the \<^verbatim>\<open>Effect.async\<close> (the outcome of the task) and the log.
\<close>

datatype task = Task (task_pool: pool) (task_cell: "unit exit option") (task_logs: "log_entry list")

definition initialized_message :: string where
  "initialized_message = ''[Database client]: Connection error listeners initialized.''"

text \<open>Starting the task registers the listener with \<^verbatim>\<open>pool.on("error", ...)\<close>.\<close>

definition start_task :: "pool \<Rightarrow> task" where
  "start_task p =
     Task (pool_on ''error'' ConnectionLostListener p) None [LogInfo initialized_message]"

text \<open>The body of the listener.\<close>

definition on_error :: "js_error \<Rightarrow> unit exit option \<Rightarrow> unit exit option" where
  "on_error error cell =
     resume cell (Effect_fail (DatabaseConnectionLostError (JsError error) (error_message error)))"

text \<open>
  The pool emits \<^verbatim>\<open>"error"\<close>: every listener registered under that name is called in
  order. What listeners of other code do is outside the module.
\<close>

definition emit_error :: "js_error \<Rightarrow> task \<Rightarrow> task" where
  "emit_error error t =
     Task (task_pool t)
       (foldl (\<lambda>cell (ev, l).
                 if ev = ''error'' \<and> l = ConnectionLostListener then on_error error cell else cell)
          (task_cell t) (listeners (task_pool t)))
       (task_logs t)"

text \<open>
  The effect that the callback of \<^verbatim>\<open>Effect.async\<close> returns runs when the task is
  interrupted while it is suspended, and not otherwise.
\<close>

definition interrupt_task :: "task \<Rightarrow> task" where
  "interrupt_task t =
     (case task_cell t of
        None \<Rightarrow>
          Task (pool_removeAllListeners ''error'' (task_pool t)) (Some (Failure Interrupt)) (task_logs t)
      | Some done \<Rightarrow> t)"

text \<open>
  What happens around the task: the pool emits an error, other code registers a listener
  on the same pool, or the task is interrupted.
\<close>

datatype pool_event = Emit_error js_error | Other_on string listener | Interrupt_task

fun step :: "task \<Rightarrow> pool_event \<Rightarrow> task" where
  "step t (Emit_error error) = emit_error error t"
| "step t (Other_on eventName l) = Task (pool_on eventName l (task_pool t)) (task_cell t) (task_logs t)"
| "step t Interrupt_task = interrupt_task t"

definition setupConnectionListeners :: "pool \<Rightarrow> pool_event list \<Rightarrow> task" where
  "setupConnectionListeners p events = foldl step (start_task p) events"

fun is_Other_on :: "pool_event \<Rightarrow> bool" where
  "is_Other_on (Other_on eventName l) = True"
| "is_Other_on e = False"

fun registered :: "pool_event list \<Rightarrow> (string \<times> listener) list" where
  "registered [] = []"
| "registered (Other_on eventName l # events) = (eventName, l) # registered events"
| "registered (e # events) = registered events"

section \<open>Messages of the errors the service surfaces\<close>




section \<open>Properties of the classifier\<close>

text \<open>
  Claim C3. The classifier returns the error of type \<open>unique_violation\<close> for a driver error
  with code 23505, \<open>foreign_key_violation\<close> for 23503, \<open>connection_error\<close> for 08000, each
  carrying the driver error as its cause; it returns null for a driver error with any other
  code (or none) and for every value that is not a driver error. It is a function of its
  argument alone: it reads no state and changes none.
\<close>

theorem matchPgError_table:
  "(pg_code d = Some ''23505'' \<longrightarrow>
      matchPgError (JsError (DriverError d)) = Some (DatabaseError unique_violation d)) \<and>
   (pg_code d = Some ''23503'' \<longrightarrow>
      matchPgError (JsError (DriverError d)) = Some (DatabaseError foreign_key_violation d)) \<and>
   (pg_code d = Some ''08000'' \<longrightarrow>
      matchPgError (JsError (DriverError d)) = Some (DatabaseError connection_error d)) \<and>
   (pg_code d \<noteq> Some ''23505'' \<and> pg_code d \<noteq> Some ''23503'' \<and> pg_code d \<noteq> Some ''08000'' \<longrightarrow>
      matchPgError (JsError (DriverError d)) = None) \<and>
   (\<not> instanceof_pg_DatabaseError v \<longrightarrow> matchPgError v = None)"
proof -
  have "\<not> instanceof_pg_DatabaseError v \<Longrightarrow> matchPgError v = None"
    by (cases v rule: instanceof_pg_DatabaseError.cases) simp_all
  then show ?thesis by simp
qed

theorem matchPgError_table_witness:
  "matchPgError (JsError (DriverError (PgDatabaseError (Some ''23505'') ''duplicate key'')))
     = Some (DatabaseError unique_violation (PgDatabaseError (Some ''23505'') ''duplicate key'')) \<and>
   matchPgError (JsError (DriverError (PgDatabaseError (Some ''23503'') ''missing row'')))
     = Some (DatabaseError foreign_key_violation (PgDatabaseError (Some ''23503'') ''missing row'')) \<and>
   matchPgError (JsError (DriverError (PgDatabaseError (Some ''08000'') ''no connection'')))
     = Some (DatabaseError connection_error (PgDatabaseError (Some ''08000'') ''no connection'')) \<and>
   matchPgError (JsError (DriverError (PgDatabaseError (Some ''42P01'') ''no table''))) = None \<and>
   matchPgError (JsError (DriverError (PgDatabaseError None ''no code''))) = None \<and>
   matchPgError (JsError (OtherError ''timeout'')) = None \<and>
   matchPgError (JsValue ''23505'') = None"
  using matchPgError_table [of "PgDatabaseError (Some ''23505'') ''duplicate key''" "JsError (OtherError ''timeout'')"]
    matchPgError_table [of "PgDatabaseError (Some ''23503'') ''missing row''" "JsValue ''23505''"]
    matchPgError_table [of "PgDatabaseError (Some ''08000'') ''no connection''" "JsValue ''23505''"]
    matchPgError_table [of "PgDatabaseError (Some ''42P01'') ''no table''" "JsValue ''23505''"]
    matchPgError_table [of "PgDatabaseError None ''no code''" "JsValue ''23505''"]
  by simp

text \<open>
  A classified error carries the driver error it was made from, and its message is the
  driver's.
\<close>

lemma classified_error_message:
  "matchPgError thrown = Some error \<Longrightarrow>
   \<exists>type d. error = DatabaseError type d \<and> thrown = JsError (DriverError d) \<and>
     DatabaseError_message type d = pg_message d"
  by (cases thrown rule: matchPgError.cases)
     (auto simp: DatabaseError_message_def split: if_splits)

section \<open>Properties of the query executor and the query factory\<close>

text \<open>
  Claim C4. For every operation given to \<open>execute\<close>: when the operation resolves,
  \<open>execute\<close> succeeds with its result; when it rejects or throws a value the classifier
  recognizes, \<open>execute\<close> fails with the classified error as a typed failure; when it rejects
  or throws any other value, \<open>execute\<close> dies with that same value as a defect, and the cause
  holds no typed failure.
\<close>

theorem execute_outcomes:
  "(fn db = Returns (Resolves a) \<longrightarrow> execute db fn = Success a) \<and>
   ((fn db = Returns (Rejects thrown) \<or> fn db = Throws thrown) \<longrightarrow>
      (matchPgError thrown = Some error \<longrightarrow> execute db fn = Failure (Fail error)) \<and>
      (matchPgError thrown = None \<longrightarrow>
         execute db fn = Failure (Die thrown) \<and> \<not> Cause_isFailure (Die thrown)))"
  by (auto simp: execute_def Effect_tryPromise_def catch_cause_def Effect_fail_def Effect_die_def)

theorem execute_outcomes_witness:
  "execute NodePgDatabase (\<lambda>client. Returns (Resolves (7::nat))) = Success 7 \<and>
   execute NodePgDatabase
      (\<lambda>client. Returns (Rejects (JsError (DriverError (PgDatabaseError (Some ''23505'') ''duplicate key'')))))
     = (Failure (Fail (DatabaseError unique_violation (PgDatabaseError (Some ''23505'') ''duplicate key''))) :: nat exit) \<and>
   execute NodePgDatabase (\<lambda>client. Throws (JsError (OtherError ''socket hang up'')))
     = (Failure (Die (JsError (OtherError ''socket hang up''))) :: nat exit)"
  using execute_outcomes [of "\<lambda>client. Returns (Resolves (7::nat))" NodePgDatabase 7 "JsValue []" "JsValue []"]
    execute_outcomes [of "\<lambda>client. Returns (Rejects (JsError (DriverError (PgDatabaseError (Some ''23505'') ''duplicate key''))))"
       NodePgDatabase "0::nat" "JsError (DriverError (PgDatabaseError (Some ''23505'') ''duplicate key''))"
       "DatabaseError unique_violation (PgDatabaseError (Some ''23505'') ''duplicate key'')"]
    execute_outcomes [of "\<lambda>client. Throws (JsError (OtherError ''socket hang up''))"
       NodePgDatabase "0::nat" "JsError (OtherError ''socket hang up'')" "JsValue []"]
  by simp

text \<open>
  Claim C7. The callable that \<open>makeQuery\<close> returns calls the query definition with the
  capability it is given when one is given, and with \<open>execute\<close> on the pool's client when
  none is; the input is passed on as it is in both cases.
\<close>

theorem makeQuery_capability:
  "makeQuery db queryFn input (Some tx) = queryFn tx input \<and>
   makeQuery db queryFn input None = queryFn (execute db) input"
  by (simp add: makeQuery_def)

section \<open>Properties of the transaction bridge\<close>

text \<open>
  A body that succeeds: the driver commits and the outer effect succeeds with the value.
\<close>

lemma transaction_success:
  "transaction (Driver None None r) (\<lambda>tx. Body_exit (Success a)) = ([Begin, Commit], Some (Success a))"
  by (simp add: transaction_def db_transaction_def transaction_callback_def resume_def Effect_succeed_def)

text \<open>
  A rejection of the driver before the callback runs reaches the \<^verbatim>\<open>.catch\<close> handler first:
  it is classified, or it is a defect.
\<close>

lemma transaction_begin_rejection:
  "transaction (Driver (Some thrown) c r) body =
     ([], Some (case matchPgError thrown of
                  Some error \<Rightarrow> Failure (Fail error)
                | None \<Rightarrow> Failure (Die thrown)))"
  by (simp add: transaction_def db_transaction_def resume_def Effect_fail_def Effect_die_def
      split: option.splits)

text \<open>
  A body that throws before it returns an effect rejects the callback: the driver rolls
  back, and the thrown value is classified.
\<close>

lemma transaction_body_throws:
  "transaction (Driver None c None) (\<lambda>tx. Body_throws thrown) =
     ([Begin, Rollback],
      Some (case matchPgError thrown of
              Some error \<Rightarrow> Failure (Fail error)
            | None \<Rightarrow> Failure (Die thrown)))"
  by (simp add: transaction_def db_transaction_def transaction_callback_def resume_def
      rollback_and_rethrow_def Effect_fail_def Effect_die_def split: option.splits)

text \<open>
  Claim C1 says that the driver commits if and only if the body succeeds. The theorem
  shows what the code does with a body that fails, whatever the cause, on a driver whose
  statements all succeed: the callback's promise resolves, the driver runs \<^verbatim>\<open>begin\<close> and
  \<^verbatim>\<open>commit\<close>, and the outer effect fails. The transaction of a failed body is committed.
\<close>

theorem transaction_commits_failed_body:
  "transaction (Driver None None r) (\<lambda>tx. Body_exit (Failure cause)) =
     ([Begin, Commit],
      Some (if Cause_isFailure cause then Failure (Fail (CauseObject cause))
            else Failure (Die (CauseObject cause))))"
  by (simp add: transaction_def db_transaction_def transaction_callback_def resume_def
      Effect_fail_def Effect_die_def Cause_originalError_def)

lemma CauseObject_neq: "CauseObject (Fail e) \<noteq> e"
proof
  assume "CauseObject (Fail e) = e"
  then have "size (CauseObject (Fail e)) = size e" by simp
  then show False by simp
qed

text \<open>
  Claim C2 says that \<open>transaction\<close> fails with the very error value the body failed with.
  The theorem shows what the code does when the body fails with \<open>e\<close> and \<^verbatim>\<open>begin\<close> succeeds:
  the outer effect fails with the cause object that holds \<open>e\<close>, which is never \<open>e\<close> itself.
\<close>

theorem transaction_fails_with_cause_object:
  "snd (transaction (Driver None c r) (\<lambda>tx. Body_exit (Failure (Fail e)))) =
     Some (Failure (Fail (CauseObject (Fail e)))) \<and>
   snd (transaction (Driver None c r) (\<lambda>tx. Body_exit (Failure (Fail e)))) \<noteq>
     Some (Failure (Fail e))"
  using CauseObject_neq [of e]
  by (cases c; cases r)
     (simp_all add: transaction_def db_transaction_def transaction_callback_def resume_def
      Effect_fail_def Effect_die_def Cause_originalError_def rollback_and_rethrow_def)

text \<open>
  Claim C8 says that a rejection of the driver's transaction primitive itself, as at
  commit time, makes \<open>transaction\<close> fail with the classified error or die with the thrown
  value. The theorem shows what the code does when the body succeeds and \<^verbatim>\<open>commit\<close> is
  rejected, with any value: the callback has already resumed the outer effect, so the call
  of \<^verbatim>\<open>resume\<close> in the \<^verbatim>\<open>.catch\<close> handler is ignored and the outer effect succeeds.
\<close>

theorem transaction_ignores_commit_rejection:
  "snd (transaction (Driver None (Some thrown) r) (\<lambda>tx. Body_exit (Success a))) = Some (Success a)"
  by (cases r)
     (simp_all add: transaction_def db_transaction_def transaction_callback_def resume_def
      Effect_succeed_def rollback_and_rethrow_def)

section \<open>Properties of the start-up\<close>

lemma tryPromise_unknown_fails:
  "call_fails c \<Longrightarrow> \<exists>e. Effect_tryPromise_unknown c = Failure (Fail e)"
  by (cases c rule: call_fails.cases)
     (simp_all add: Effect_tryPromise_unknown_def Effect_tryPromise_def Effect_fail_def)

lemma tryPromise_unknown_succeeds:
  "\<not> call_fails c \<Longrightarrow> \<exists>a. Effect_tryPromise_unknown c = Success a"
  by (cases c rule: call_fails.cases)
     (simp_all add: Effect_tryPromise_unknown_def Effect_tryPromise_def)

lemma retry_spaced_fails_then_succeeds:
  "(\<forall>i<k. \<exists>e. attempt (n + i) = Failure (Fail e)) \<Longrightarrow> attempt (n + k) = Success a \<Longrightarrow>
   retry_spaced attempt n s logged =
     Some (Success a, Suc (n + k), logged @ map (\<lambda>i. LogWarning (retry_message i)) [s..<s + k])"
proof (induction k arbitrary: n s logged)
  case 0
  then show ?case by (subst retry_spaced.simps) simp
next
  case (Suc k)
  from Suc.prems(1) obtain e where e: "attempt n = Failure (Fail e)" by force
  have later: "\<forall>i<k. \<exists>e. attempt (Suc n + i) = Failure (Fail e)"
  proof (intro allI impI)
    fix i assume "i < k"
    then have "Suc i < Suc k" by simp
    with Suc.prems(1) have "\<exists>e. attempt (n + Suc i) = Failure (Fail e)" by blast
    then show "\<exists>e. attempt (Suc n + i) = Failure (Fail e)" by simp
  qed
  have last: "attempt (Suc n + k) = Success a" using Suc.prems(2) by simp
  have "retry_spaced attempt n s logged =
          retry_spaced attempt (Suc n) (Suc s) (logged @ [LogWarning (retry_message s)])"
    by (subst retry_spaced.simps) (simp add: e Schedule_spaced_def)
  also have "\<dots> = Some (Success a, Suc (Suc n + k),
      (logged @ [LogWarning (retry_message s)]) @ map (\<lambda>i. LogWarning (retry_message i)) [Suc s..<Suc s + k])"
    by (rule Suc.IH [OF later last])
  also have "(logged @ [LogWarning (retry_message s)]) @ map (\<lambda>i. LogWarning (retry_message i)) [Suc s..<Suc s + k]
      = logged @ map (\<lambda>i. LogWarning (retry_message i)) [s..<s + Suc k]"
    by (subst (2) upt_rec) simp
  finally show ?case by simp
qed

text \<open>
  A retry that ends has met a run that succeeded, or a run that failed with no typed
  failure, and ends with the exit of that run.
\<close>

lemma retry_spaced_returns:
  "retry_spaced attempt n s logged = Some r \<Longrightarrow>
   \<exists>i. (\<exists>a. attempt i = Success a \<and> fst r = Success a) \<or>
       (\<exists>c. attempt i = Failure c \<and> Cause_failureOption c = None \<and> fst r = Failure c)"
proof (rule retry_spaced.raw_induct
    [where P = "\<lambda>attempt n s logged r.
       \<exists>i. (\<exists>a. attempt i = Success a \<and> fst r = Success a) \<or>
           (\<exists>c. attempt i = Failure c \<and> Cause_failureOption c = None \<and> fst r = Failure c)"])
  show "retry_spaced attempt n s logged = Some r \<Longrightarrow> retry_spaced attempt n s logged = Some r" .
next
  fix f :: "(nat \<Rightarrow> 'a exit) \<Rightarrow> nat \<Rightarrow> nat \<Rightarrow> log_entry list \<Rightarrow> ('a exit \<times> nat \<times> log_entry list) option"
  fix att :: "nat \<Rightarrow> 'a exit" and k st lg res
  assume IH: "\<And>att k st lg res. f att k st lg = Some res \<Longrightarrow>
     \<exists>i. (\<exists>a. att i = Success a \<and> fst res = Success a) \<or>
         (\<exists>c. att i = Failure c \<and> Cause_failureOption c = None \<and> fst res = Failure c)"
  assume eq: "(case att k of
                 Success a \<Rightarrow> Some (Success a, Suc k, lg)
               | Failure c \<Rightarrow>
                   (case Cause_failureOption c of
                      None \<Rightarrow> Some (Failure c, Suc k, lg)
                    | Some e \<Rightarrow>
                        (case Schedule_spaced st of
                           (output, st') \<Rightarrow> f att (Suc k) st' (lg @ [LogWarning (retry_message output)])))) = Some res"
  show "\<exists>i. (\<exists>a. att i = Success a \<and> fst res = Success a) \<or>
         (\<exists>c. att i = Failure c \<and> Cause_failureOption c = None \<and> fst res = Failure c)"
  proof (cases "att k")
    case (Success a)
    with eq have "fst res = Success a" by auto
    with Success show ?thesis by blast
  next
    case (Failure c)
    show ?thesis
    proof (cases "Cause_failureOption c")
      case None
      with eq Failure have "fst res = Failure c" by auto
      with Failure None show ?thesis by blast
    next
      case (Some e)
      with eq Failure have "f att (Suc k) (Suc st) (lg @ [LogWarning (retry_message st)]) = Some res"
        by (simp add: Schedule_spaced_def)
      then show ?thesis by (rule IH)
    qed
  qed
qed

lemma retry_spaced_never:
  assumes "\<forall>i. \<exists>e. attempt i = Failure (Fail e)"
  shows "retry_spaced attempt n s logged = None"
proof (cases "retry_spaced attempt n s logged")
  case None
  then show ?thesis .
next
  case (Some r)
  then obtain i where i: "(\<exists>a. attempt i = Success a \<and> fst r = Success a) \<or>
       (\<exists>c. attempt i = Failure c \<and> Cause_failureOption c = None \<and> fst r = Failure c)"
    using retry_spaced_returns by blast
  from assms obtain e where "attempt i = Failure (Fail e)" by blast
  with i show ?thesis by auto
qed

lemma Cause_isFailure_failureOption: "Cause_isFailure c = (Cause_failureOption c \<noteq> None)"
  by (induction c rule: Cause_isFailure.induct) (auto split: option.splits)

lemma Effect_orDie_no_failure: "Effect_orDie exit = Failure c \<Longrightarrow> \<not> Cause_isFailure c"
  by (auto simp: Effect_orDie_def Effect_die_def Cause_isFailure_failureOption
      split: exit.splits option.splits)

lemma makeService_ready:
  "makeService config query = Some srv \<Longrightarrow> ready srv = Success ()"
proof -
  assume m: "makeService config query = Some srv"
  then obtain r where r: "retry_spaced (\<lambda>k. Effect_tryPromise_unknown (query k)) 0 0 [] = Some r"
    by (cases "retry_spaced (\<lambda>k. Effect_tryPromise_unknown (query k)) 0 0 []")
       (simp_all add: makeService_def)
  then obtain i where i:
    "(\<exists>a. Effect_tryPromise_unknown (query i) = Success a \<and> fst r = Success a) \<or>
     (\<exists>c. Effect_tryPromise_unknown (query i) = Failure c \<and> Cause_failureOption c = None \<and>
          fst r = Failure c)"
    using retry_spaced_returns [OF r] by blast
  have "\<not> (\<exists>c. Effect_tryPromise_unknown (query i) = (Failure c :: unit exit) \<and> Cause_failureOption c = None)"
  proof (cases "call_fails (query i)")
    case True
    then obtain e where "Effect_tryPromise_unknown (query i) = (Failure (Fail e) :: unit exit)"
      using tryPromise_unknown_fails by blast
    then show ?thesis by auto
  next
    case False
    then obtain a where "Effect_tryPromise_unknown (query i) = Success a"
      using tryPromise_unknown_succeeds by blast
    then show ?thesis by auto
  qed
  with i obtain a where a: "fst r = Success a" by blast
  obtain exit n logged where t: "r = (exit, n, logged)" by (cases r) auto
  from m r t a show ?thesis by (auto simp: makeService_def Effect_orDie_def)
qed

lemma makeService_never_ready:
  "\<forall>i. call_fails (query i) \<Longrightarrow> makeService config query = None"
proof -
  assume a: "\<forall>i. call_fails (query i)"
  have "\<forall>i. \<exists>e. Effect_tryPromise_unknown (query i) = (Failure (Fail e) :: unit exit)"
    using a tryPromise_unknown_fails by auto
  then have "retry_spaced (\<lambda>k. Effect_tryPromise_unknown (query k)) 0 0 [] = None"
    by (rule retry_spaced_never)
  then show ?thesis by (simp add: makeService_def)
qed

lemma makeService_fails_then_succeeds:
  assumes "\<forall>i<N. call_fails (query i)" and "\<not> call_fails (query N)"
  shows "makeService config query =
           Some (Service (new_Pool (PoolConfig (Redacted_value (url config)) (ssl config) 0 0))
                   (Success ()) (Suc N)
                   (map (\<lambda>i. LogWarning (retry_message i)) [0..<N] @ [LogInfo established_message]))"
proof -
  have fails: "\<forall>i<N. \<exists>e. Effect_tryPromise_unknown (query (0 + i)) = (Failure (Fail e) :: unit exit)"
    using assms(1) tryPromise_unknown_fails by auto
  have ok: "Effect_tryPromise_unknown (query (0 + N)) = Success ()"
    using assms(2) tryPromise_unknown_succeeds [of "query N"] by auto
  have "retry_spaced (\<lambda>k. Effect_tryPromise_unknown (query k)) 0 0 [] =
          Some (Success (), Suc (0 + N), [] @ map (\<lambda>i. LogWarning (retry_message i)) [0..<0 + N])"
    by (rule retry_spaced_fails_then_succeeds [OF fails ok])
  then show ?thesis by (simp add: makeService_def Effect_orDie_def)
qed

text \<open>
  Claim C5. When the probe fails \<open>N\<close> times and then succeeds, the service is ready after
  exactly \<open>N + 1\<close> probes; the log holds one warning per failed probe, in order, each with
  the count the schedule gives it (0 for the first), followed by one info entry. Whatever
  the probes do, a start-up that ends ends in success, so no failure of a probe reaches the
  caller; and when every probe fails the start-up never ends.
\<close>

theorem startup_retries:
  assumes "\<forall>i<N. call_fails (query i)" and "\<not> call_fails (query N)"
  shows "makeService config query =
           Some (Service (new_Pool (PoolConfig (Redacted_value (url config)) (ssl config) 0 0))
                   (Success ()) (Suc N)
                   (map (\<lambda>i. LogWarning (retry_message i)) [0..<N] @ [LogInfo established_message])) \<and>
         (\<forall>other srv. makeService config other = Some srv \<longrightarrow> ready srv = Success ()) \<and>
         (\<forall>other. (\<forall>i. call_fails (other i)) \<longrightarrow> makeService config other = None)"
proof -
  have "makeService config query =
           Some (Service (new_Pool (PoolConfig (Redacted_value (url config)) (ssl config) 0 0))
                   (Success ()) (Suc N)
                   (map (\<lambda>i. LogWarning (retry_message i)) [0..<N] @ [LogInfo established_message]))"
    using assms by (rule makeService_fails_then_succeeds)
  then show ?thesis using makeService_ready makeService_never_ready by blast
qed

theorem startup_retries_witness:
  "makeService (Config (Redacted ''postgres://u:p@h/db'') True)
      (\<lambda>k. if k < 2 then Returns (Rejects (JsError (OtherError ''ECONNREFUSED''))) else Returns (Resolves ()))
    = Some (Service (Pool (PoolConfig ''postgres://u:p@h/db'' True 0 0) []) (Success ()) 3
        [LogWarning ''[Database client]: Connection to the database failed. Retrying (attempt 0).'',
         LogWarning ''[Database client]: Connection to the database failed. Retrying (attempt 1).'',
         LogInfo ''[Database client]: Connection to the database established.''])"
proof -
  let ?q = "\<lambda>k::nat. if k < 2 then Returns (Rejects (JsError (OtherError ''ECONNREFUSED''))) else Returns (Resolves ())"
  have h1: "\<forall>i<2. call_fails (?q i)" by simp
  have h2: "\<not> call_fails (?q 2)" by simp
  have u: "[0..<2] = [0, Suc 0]" by (simp add: upt_conv_Cons)
  have s0: "string_of_nat 0 = ''0''" by (subst string_of_nat.simps) simp
  have s1: "string_of_nat (Suc 0) = ''1''" by (subst string_of_nat.simps) simp
  show ?thesis
    using startup_retries [of 2 ?q "Config (Redacted ''postgres://u:p@h/db'') True", OF h1 h2]
    by (simp add: u s0 s1 new_Pool_def retry_message_def established_message_def)
qed



section \<open>Properties of the connection-loss watcher\<close>

lemma resume_Some: "resume (Some x) effect = Some x"
  by (simp add: resume_def)

lemma on_error_Some: "on_error error (Some x) = Some x"
  by (simp add: on_error_def resume_def)

lemma call_listeners_Some:
  "foldl (\<lambda>cell (ev, l). if ev = ''error'' \<and> l = ConnectionLostListener then on_error error cell else cell)
     (Some x) ls = Some x"
  by (induction ls) (auto simp: on_error_Some)

lemma call_listeners_None:
  "(''error'', ConnectionLostListener) \<in> set ls \<Longrightarrow>
   foldl (\<lambda>cell (ev, l). if ev = ''error'' \<and> l = ConnectionLostListener then on_error error cell else cell)
     None ls = on_error error None"
proof (induction ls)
  case Nil
  then show ?case by simp
next
  case (Cons x ls)
  show ?case
  proof (cases "x = (''error'', ConnectionLostListener)")
    case True
    have "\<exists>y. on_error error None = Some y" by (simp add: on_error_def resume_def)
    then obtain y where "on_error error None = Some y" by blast
    with True show ?thesis by (simp add: call_listeners_Some)
  next
    case False
    with Cons.prems have "(''error'', ConnectionLostListener) \<in> set ls" by simp
    with Cons.IH False show ?thesis by (cases x) auto
  qed
qed

lemma step_completed: "task_cell t = Some x \<Longrightarrow> task_cell (step t e) = Some x"
  by (cases e) (simp_all add: emit_error_def interrupt_task_def call_listeners_Some)

lemma run_completed: "task_cell t = Some x \<Longrightarrow> task_cell (foldl step t events) = Some x"
  by (induction events arbitrary: t) (simp_all add: step_completed)

lemma run_quiet:
  "list_all is_Other_on events \<Longrightarrow>
   foldl step t events =
     Task (Pool (pool_options (task_pool t)) (listeners (task_pool t) @ registered events))
       (task_cell t) (task_logs t)"
proof (induction events arbitrary: t)
  case Nil
  then show ?case by simp
next
  case (Cons e events)
  then show ?case by (cases e) (simp_all add: pool_on_def)
qed

lemma start_then_quiet:
  "list_all is_Other_on events \<Longrightarrow>
   foldl step (start_task p) events =
     Task (Pool (pool_options p) (listeners p @ (''error'', ConnectionLostListener) # registered events))
       None [LogInfo initialized_message]"
  by (simp add: run_quiet start_task_def pool_on_def)

text \<open>
  Claim C6. After the task has started, and whatever listeners other code has registered
  meanwhile, the first error the pool emits makes the task fail with a
  \<open>DatabaseConnectionLostError\<close> whose cause is that error and whose message is that
  error's message, whatever happens later; while the pool emits no error the task has no
  outcome.
\<close>

theorem connection_lost_signal:
  assumes "list_all is_Other_on quiet"
  shows "task_cell (setupConnectionListeners p (quiet @ Emit_error error # later)) =
           Some (Failure (Fail (DatabaseConnectionLostError (JsError error) (error_message error)))) \<and>
         task_cell (setupConnectionListeners p quiet) = None"
proof -
  let ?t = "foldl step (start_task p) quiet"
  have t: "?t = Task (Pool (pool_options p) (listeners p @ (''error'', ConnectionLostListener) # registered quiet))
       None [LogInfo initialized_message]"
    using assms by (rule start_then_quiet)
  have "foldl (\<lambda>cell (ev, l). if ev = ''error'' \<and> l = ConnectionLostListener then on_error error cell else cell)
          None (listeners p @ (''error'', ConnectionLostListener) # registered quiet) = on_error error None"
    by (rule call_listeners_None) simp
  then have "task_cell (step ?t (Emit_error error)) = on_error error None"
    by (simp only: t step.simps emit_error_def task.sel pool.sel)
  then have "task_cell (step ?t (Emit_error error)) =
      Some (Failure (Fail (DatabaseConnectionLostError (JsError error) (error_message error))))"
    by (simp add: on_error_def resume_def Effect_fail_def)
  then have "task_cell (foldl step (step ?t (Emit_error error)) later) =
      Some (Failure (Fail (DatabaseConnectionLostError (JsError error) (error_message error))))"
    by (rule run_completed)
  moreover have "task_cell ?t = None" by (simp add: t)
  ultimately show ?thesis by (simp add: setupConnectionListeners_def)
qed

theorem connection_lost_signal_witness:
  "task_cell (setupConnectionListeners (Pool (PoolConfig ''postgres://h/db'' False 0 0) [])
      [Other_on ''connect'' (OtherListener 1), Emit_error (OtherError ''terminated''),
       Emit_error (OtherError ''again'')]) =
     Some (Failure (Fail (DatabaseConnectionLostError (JsError (OtherError ''terminated'')) ''terminated''))) \<and>
   task_cell (setupConnectionListeners (Pool (PoolConfig ''postgres://h/db'' False 0 0) [])
      [Other_on ''connect'' (OtherListener 1)]) = None"
  using connection_lost_signal [of "[Other_on ''connect'' (OtherListener 1)]"
      "Pool (PoolConfig ''postgres://h/db'' False 0 0) []" "OtherError ''terminated''"
      "[Emit_error (OtherError ''again'')]"]
  by simp

text \<open>
  Claim C10. When the task is interrupted while it waits, the pool is left with the
  listeners it had and those registered since, other code's included, less every listener
  of the event \<^verbatim>\<open>"error"\<close>: none of them remains, whoever registered it.
\<close>

theorem finalizer_removes_all_error_listeners:
  assumes "list_all is_Other_on events"
  shows "listeners (task_pool (setupConnectionListeners p (events @ [Interrupt_task]))) =
           filter (\<lambda>(ev, l). ev \<noteq> ''error'') (listeners p @ registered events) \<and>
         (\<forall>l. (''error'', l) \<notin> set (listeners (task_pool (setupConnectionListeners p (events @ [Interrupt_task])))))"
proof -
  have "foldl step (start_task p) events =
     Task (Pool (pool_options p) (listeners p @ (''error'', ConnectionLostListener) # registered events))
       None [LogInfo initialized_message]"
    using assms by (rule start_then_quiet)
  then have "listeners (task_pool (setupConnectionListeners p (events @ [Interrupt_task]))) =
           filter (\<lambda>(ev, l). ev \<noteq> ''error'') (listeners p @ registered events)"
    by (simp add: setupConnectionListeners_def interrupt_task_def pool_removeAllListeners_def)
  then show ?thesis by auto
qed

theorem finalizer_removes_all_error_listeners_witness:
  "listeners (task_pool (setupConnectionListeners
      (Pool (PoolConfig ''postgres://h/db'' False 0 0)
         [(''error'', OtherListener 1), (''connect'', OtherListener 2)])
      [Other_on ''error'' (OtherListener 3), Other_on ''remove'' (OtherListener 4), Interrupt_task])) =
     [(''connect'', OtherListener 2), (''remove'', OtherListener 4)]"
  using finalizer_removes_all_error_listeners [of "[Other_on ''error'' (OtherListener 3), Other_on ''remove'' (OtherListener 4)]"
      "Pool (PoolConfig ''postgres://h/db'' False 0 0) [(''error'', OtherListener 1), (''connect'', OtherListener 2)]"]
  by simp

section \<open>The url and what the service shows\<close>



















end
